theory Spec2Isabelle
  imports Main
begin

section \<open>JavaScript values used by the model loader\<close>

text \<open>
  A TypeScript parameter of type \<open>T\<close> (compiled without strict null checks, and called
  from JavaScript) holds a value of \<open>T\<close>, \<open>null\<close> or \<open>undefined\<close>. The two absent
  values are kept apart; the source tests them together with \<open>== null\<close>.
\<close>

datatype 'a nullable = Undefined | Null | Val 'a

text \<open>\<open>v == null\<close>: true of \<open>null\<close> and of \<open>undefined\<close>, false of every other value.\<close>

fun is_null :: "'a nullable \<Rightarrow> bool" where
  "is_null Undefined = True"
| "is_null Null = True"
| "is_null (Val v) = False"

text \<open>
  The first argument of \<open>loadGraphModel\<close> has type \<open>string | io.IOHandler\<close>. The handler
  is an opaque object of type \<open>'h\<close>.
\<close>

datatype 'h locator = Url string | IOHandler 'h

text \<open>
  \<open>io.LoadOptions\<close>, with the three fields the source reads. A field that the object
  does not have reads as \<open>undefined\<close>.
\<close>

record ('r, 'p) LoadOptions =
  requestInit :: "'r nullable"
  onProgress :: "'p nullable"
  fromTFHub :: "bool nullable"

text \<open>The object literal \<open>{}\<close>.\<close>

definition empty_options :: "('r, 'p) LoadOptions" where
  "empty_options = \<lparr>requestInit = Undefined, onProgress = Undefined, fromTFHub = Undefined\<rparr>"

text \<open>
  The options a call works with: the default value \<open>{}\<close> of the parameter replaces
  \<open>undefined\<close>, and the assignment under \<open>options == null\<close> replaces \<open>null\<close>.
\<close>

definition default_options :: "('r, 'p) LoadOptions nullable \<Rightarrow> ('r, 'p) LoadOptions" where
  "default_options options = (case options of Val opts \<Rightarrow> opts | _ \<Rightarrow> empty_options)"

text \<open>Truthiness of a nullable boolean and of a nullable string (the empty string is falsy).\<close>

fun truthy_bool :: "bool nullable \<Rightarrow> bool" where
  "truthy_bool (Val b) = b"
| "truthy_bool Undefined = False"
| "truthy_bool Null = False"

fun truthy_string :: "string nullable \<Rightarrow> bool" where
  "truthy_string (Val s) = (s \<noteq> [])"
| "truthy_string Undefined = False"
| "truthy_string Null = False"

section \<open>String methods of the standard library\<close>

text \<open>
  \<open>String.prototype.endsWith(searchString)\<close> with the end position omitted: the
  comparison starts at \<open>len - searchLength\<close> and fails when that is negative.
\<close>

definition endsWith :: "string \<Rightarrow> string \<Rightarrow> bool" where
  "endsWith s searchString =
     (let len = int (length s);
          searchLength = int (length searchString);
          start = len - searchLength
      in if start < 0 then False
         else take (length searchString) (drop (nat start) s) = searchString)"

text \<open>
  \<open>String.prototype.lastIndexOf(searchString)\<close> with the position omitted: the largest
  \<open>k\<close> with \<open>k + searchLen \<le> len\<close> at which \<open>searchString\<close> occurs in \<open>s\<close>, and \<open>-1\<close>
  when there is none. The search runs downwards from \<open>len - searchLen\<close>.
\<close>

fun lastIndexOf_from :: "string \<Rightarrow> string \<Rightarrow> nat \<Rightarrow> int" where
  "lastIndexOf_from s searchString 0 =
     (if take (length searchString) s = searchString then 0 else - 1)"
| "lastIndexOf_from s searchString (Suc k) =
     (if take (length searchString) (drop (Suc k) s) = searchString then int (Suc k)
      else lastIndexOf_from s searchString k)"

definition lastIndexOf :: "string \<Rightarrow> string \<Rightarrow> int" where
  "lastIndexOf s searchString =
     (if length searchString \<le> length s
      then lastIndexOf_from s searchString (length s - length searchString)
      else - 1)"

text \<open>
  \<open>String.prototype.substr(start, length)\<close>: a negative start counts from the end, the
  length is clamped to \<open>0 .. size\<close>, and an empty range gives the empty string.
\<close>

definition substr :: "string \<Rightarrow> int \<Rightarrow> int \<Rightarrow> string" where
  "substr s start len =
     (let size = int (length s);
          intStart = (if start < 0 then max (size + start) 0 else min start size);
          intLength = min (max len 0) size;
          intEnd = min (intStart + intLength) size
      in if intStart \<ge> intEnd then []
         else take (nat (intEnd - intStart)) (drop (nat intStart) s))"

section \<open>The collaborators and their observable calls\<close>

text \<open>
  The three loaders are imported from \<open>./executor/frozen_model\<close> and
  \<open>./executor/frozen_model_json\<close>; each returns a promise. A call is recorded with the
  arguments it was given. \<open>loadFrozenModelPB\<close> is the binary loader,
  \<open>loadFrozenModelJSON\<close> the JSON loader (the legacy entry point and the current one call
  the same function), \<open>loadTfHubModuleJSON\<close> the TF-Hub loader.
\<close>

datatype ('h, 'r, 'p) backend_call =
    loadFrozenModelPB "string nullable" "string nullable" "'r nullable" "'p nullable"
  | loadFrozenModelJSON "'h locator nullable" "'r nullable" "'p nullable"
  | loadTfHubModuleJSON "'h locator nullable" "'r nullable" "'p nullable"

text \<open>
  What the module does to the outside: a call of \<open>deprecationWarn\<close> with its message, or
  a call of a loader. The trace lists the effects in the order they happen.
\<close>

datatype ('h, 'r, 'p) effect =
    DeprecationWarn string
  | Invoke "('h, 'r, 'p) backend_call"

type_synonym ('h, 'r, 'p) trace = "('h, 'r, 'p) effect list"

text \<open>\<open>throw new Error(message)\<close>.\<close>

datatype error = Error string

text \<open>
  A function of the module takes the trace so far and returns its outcome, a thrown error
  or the returned promise, with the trace extended. The promise of a loader call is given
  by the parameter \<open>backend\<close>; the module never looks into it.
\<close>

type_synonym ('h, 'r, 'p, 'm) outcome = "(error + 'm) \<times> ('h, 'r, 'p) trace"

definition throw :: "error \<Rightarrow> ('h, 'r, 'p) trace \<Rightarrow> ('h, 'r, 'p, 'm) outcome" where
  "throw e t = (Inl e, t)"

definition invoke ::
  "(('h, 'r, 'p) backend_call \<Rightarrow> 'm) \<Rightarrow> ('h, 'r, 'p) backend_call \<Rightarrow>
   ('h, 'r, 'p) trace \<Rightarrow> ('h, 'r, 'p, 'm) outcome" where
  "invoke backend c t = (Inr (backend c), t @ [Invoke c])"

definition deprecationWarn :: "string \<Rightarrow> ('h, 'r, 'p) trace \<Rightarrow> ('h, 'r, 'p) trace" where
  "deprecationWarn msg t = t @ [DeprecationWarn msg]"

section \<open>The module\<close>

text \<open>
  Modelled from the spec: the constant \<open>DEFAULT_MANIFEST_NAME\<close> is imported from
  \<open>./executor/frozen_model\<close>, which is not among the sources; the specification gives
  the fixed conventional filename as \<open>weights_manifest.json\<close>.
\<close>

definition DEFAULT_MANIFEST_NAME :: string where
  "DEFAULT_MANIFEST_NAME = ''weights_manifest.json''"

text \<open>
  \<open>getWeightsManifestUrl\<close>: the local variable is declared without a value, so it is
  \<open>undefined\<close> unless the branch assigns it.
\<close>

definition getWeightsManifestUrl :: "string nullable \<Rightarrow> string nullable" where
  "getWeightsManifestUrl modelUrl =
     (case modelUrl of
        Val url \<Rightarrow>
          (let path = substr url 0 (lastIndexOf url ''/'')
           in Val (path @ ''/'' @ DEFAULT_MANIFEST_NAME))
      | _ \<Rightarrow> Undefined)"

text \<open>The two message literals of the source.\<close>

definition loadFrozenModel_warning :: string where
  "loadFrozenModel_warning =
     ''tf.loadFrozenModel() is going away. '' @
     ''Use tf.loadGraphModel() instead, and note the positional argument changes.''"

definition loadGraphModel_null_message :: string where
  "loadGraphModel_null_message =
     ''modelUrl in loadGraphModel() cannot be null. Please provide a url '' @
     ''or an IOHandler that loads the model''"

text \<open>
  \<open>loadFrozenModel\<close>, the deprecated entry point. Its first parameter has type
  \<open>string\<close>; passing it to the JSON loader widens it to \<open>string | io.IOHandler\<close>
  (\<open>map_nullable Url\<close>). The casts of the returned promise change its static type only.
\<close>

definition loadFrozenModel ::
  "(('h, 'r, 'p) backend_call \<Rightarrow> 'm) \<Rightarrow> string nullable \<Rightarrow> string nullable \<Rightarrow>
   'r nullable \<Rightarrow> 'p nullable \<Rightarrow> ('h, 'r, 'p) trace \<Rightarrow> ('h, 'r, 'p, 'm) outcome" where
  "loadFrozenModel backend modelUrl weightsManifestUrl requestOption onProgress' t =
     (let t1 = deprecationWarn loadFrozenModel_warning t
      in if truthy_string modelUrl \<and>
            (case modelUrl of Val s \<Rightarrow> endsWith s ''.json'' | _ \<Rightarrow> False)
         then invoke backend
                (loadFrozenModelJSON (map_nullable Url modelUrl) requestOption onProgress') t1
         else
           let weightsManifestUrl' =
                 (if \<not> is_null modelUrl \<and> is_null weightsManifestUrl
                  then getWeightsManifestUrl modelUrl
                  else weightsManifestUrl)
           in invoke backend
                (loadFrozenModelPB modelUrl weightsManifestUrl' requestOption onProgress') t1)"

text \<open>
  \<open>loadGraphModel\<close>, the current entry point. \<open>util.isString(modelUrl)\<close> holds exactly
  of the \<open>Url\<close> values. The cast \<open>modelUrl as string\<close> of the TF-Hub branch does nothing
  at run time, so the value is passed as it is.
\<close>

definition loadGraphModel ::
  "(('h, 'r, 'p) backend_call \<Rightarrow> 'm) \<Rightarrow> 'h locator nullable \<Rightarrow>
   ('r, 'p) LoadOptions nullable \<Rightarrow> ('h, 'r, 'p) trace \<Rightarrow> ('h, 'r, 'p, 'm) outcome" where
  "loadGraphModel backend modelUrl options t =
     (if is_null modelUrl
      then throw (Error loadGraphModel_null_message) t
      else
        let options' = default_options options
        in if truthy_bool (fromTFHub options')
           then invoke backend
                  (loadTfHubModuleJSON modelUrl (requestInit options') (onProgress options')) t
           else
             (case modelUrl of
                Val (Url s) \<Rightarrow>
                  if endsWith s ''.pb''
                  then
                    let weightsManifestUrl = getWeightsManifestUrl (Val s)
                    in invoke backend
                         (loadFrozenModelPB (Val s) weightsManifestUrl
                            (requestInit options') (onProgress options')) t
                  else invoke backend
                         (loadFrozenModelJSON modelUrl
                            (requestInit options') (onProgress options')) t
              | _ \<Rightarrow>
                  invoke backend
                    (loadFrozenModelJSON modelUrl (requestInit options') (onProgress options')) t))"

section \<open>The directory part of a URL, as the specification words it\<close>

text \<open>
  The substring of \<open>s\<close> up to, and excluding, the final \<open>/\<close>; the empty string when
  \<open>s\<close> has no \<open>/\<close>.
\<close>

definition dirname :: "string \<Rightarrow> string" where
  "dirname s = rev (tl (dropWhile (\<lambda>c. c \<noteq> CHR ''/'') (rev s)))"

text \<open>
  A promise that only remembers the call it came from, for running the entry points on
  concrete inputs.
\<close>

datatype promise = Promise_of "(unit, unit, unit) backend_call"

section \<open>Facts about the string methods\<close>

text \<open>\<open>endsWith\<close> holds exactly when the string is some prefix followed by the suffix.\<close>

lemma endsWith_iff: "endsWith s x \<longleftrightarrow> (\<exists>p. s = p @ x)"
proof
  assume h: "endsWith s x"
  then have le: "length x \<le> length s"
    by (auto simp: endsWith_def Let_def split: if_splits)
  from h le have "drop (length s - length x) s = x"
    by (simp add: endsWith_def Let_def nat_diff_distrib' of_nat_diff)
  then have "s = take (length s - length x) s @ x"
    by (metis append_take_drop_id)
  then show "\<exists>p. s = p @ x" ..
next
  assume "\<exists>p. s = p @ x"
  then obtain p where "s = p @ x" ..
  then show "endsWith s x"
    by (simp add: endsWith_def Let_def)
qed

text \<open>
  The downward search: it answers \<open>-1\<close> when no position up to \<open>k\<close> matches, and the
  position \<open>i\<close> when \<open>i\<close> matches and no later position up to \<open>k\<close> does.
\<close>

lemma take1_eq_singleton: "take (length [c]) xs = [c] \<Longrightarrow> c \<in> set xs"
  by (cases xs) auto

lemma lastIndexOf_from_none:
  "(\<And>j. j \<le> k \<Longrightarrow> take (length x) (drop j s) \<noteq> x) \<Longrightarrow> lastIndexOf_from s x k = - 1"
proof (induction k)
  case 0
  from 0 [of 0] show ?case by simp
next
  case (Suc k)
  from Suc.prems [of "Suc k"] have "take (length x) (drop (Suc k) s) \<noteq> x" by simp
  moreover have "lastIndexOf_from s x k = - 1"
    by (rule Suc.IH) (simp add: Suc.prems)
  ultimately show ?case by simp
qed

lemma lastIndexOf_from_found:
  "i \<le> k \<Longrightarrow> take (length x) (drop i s) = x \<Longrightarrow>
   (\<And>j. i < j \<Longrightarrow> j \<le> k \<Longrightarrow> take (length x) (drop j s) \<noteq> x) \<Longrightarrow>
   lastIndexOf_from s x k = int i"
proof (induction k)
  case 0
  then show ?case by simp
next
  case (Suc k)
  show ?case
  proof (cases "i = Suc k")
    case True
    with Suc.prems show ?thesis by simp
  next
    case False
    with Suc.prems have ik: "i \<le> k" and lt: "i < Suc k" by simp_all
    from Suc.prems(3) [OF lt] have "take (length x) (drop (Suc k) s) \<noteq> x" by simp
    moreover have "lastIndexOf_from s x k = int i"
      by (rule Suc.IH [OF ik Suc.prems(2)]) (simp add: Suc.prems(3))
    ultimately show ?thesis by simp
  qed
qed

text \<open>For a one-character search string: the index of its last occurrence, or \<open>-1\<close>.\<close>

lemma lastIndexOf_absent: "c \<notin> set s \<Longrightarrow> lastIndexOf s [c] = - 1"
proof -
  assume c: "c \<notin> set s"
  have "lastIndexOf_from s [c] k = - 1" for k
  proof (rule lastIndexOf_from_none)
    fix j
    show "take (length [c]) (drop j s) \<noteq> [c]"
    proof
      assume "take (length [c]) (drop j s) = [c]"
      then have "c \<in> set (drop j s)" by (rule take1_eq_singleton)
      then have "c \<in> set s" by (rule in_set_dropD)
      with c show False by simp
    qed
  qed
  then show ?thesis by (simp add: lastIndexOf_def)
qed

lemma lastIndexOf_last: "c \<notin> set q \<Longrightarrow> lastIndexOf (p @ c # q) [c] = int (length p)"
proof -
  assume c: "c \<notin> set q"
  let ?s = "p @ c # q"
  have "lastIndexOf_from ?s [c] (length p + length q) = int (length p)"
  proof (rule lastIndexOf_from_found)
    show "length p \<le> length p + length q" by simp
    show "take (length [c]) (drop (length p) ?s) = [c]" by simp
    fix j
    assume lt: "length p < j"
    show "take (length [c]) (drop j ?s) \<noteq> [c]"
    proof
      assume "take (length [c]) (drop j ?s) = [c]"
      then have "c \<in> set (drop j ?s)" by (rule take1_eq_singleton)
      moreover from lt have "drop j ?s = drop (j - Suc (length p)) q"
        by (simp add: drop_Cons')
      ultimately have "c \<in> set (drop (j - Suc (length p)) q)" by (simp only:)
      then have "c \<in> set q" by (rule in_set_dropD)
      with c show False by simp
    qed
  qed
  then show ?thesis by (simp add: lastIndexOf_def)
qed

text \<open>\<open>substr(0, n)\<close> is a prefix, and the empty string when \<open>n\<close> is negative.\<close>

lemma substr_prefix: "n \<le> length s \<Longrightarrow> substr s 0 (int n) = take n s"
  by (auto simp: substr_def Let_def min_def max_def)

lemma substr_negative: "len < 0 \<Longrightarrow> substr s 0 len = []"
  by (auto simp: substr_def Let_def min_def max_def)

text \<open>
  \<open>dirname\<close> is what its description says, and it is the path that
  \<open>getWeightsManifestUrl\<close> computes with \<open>substr\<close> and \<open>lastIndexOf\<close>.
\<close>

lemma dirname_absent: "CHR ''/'' \<notin> set s \<Longrightarrow> dirname s = []"
proof -
  assume "CHR ''/'' \<notin> set s"
  then have "dropWhile (\<lambda>c. c \<noteq> CHR ''/'') (rev s) = []" by auto
  then show ?thesis by (simp only: dirname_def list.sel rev.simps)
qed

lemma dirname_last: "CHR ''/'' \<notin> set q \<Longrightarrow> dirname (p @ CHR ''/'' # q) = p"
proof -
  assume "CHR ''/'' \<notin> set q"
  then have "dropWhile (\<lambda>c. c \<noteq> CHR ''/'') (rev q @ CHR ''/'' # rev p) = CHR ''/'' # rev p"
    by (subst dropWhile_append2) auto
  then show ?thesis by (simp add: dirname_def)
qed

lemma path_eq_dirname: "substr s 0 (lastIndexOf s ''/'') = dirname s"
proof (cases "CHR ''/'' \<in> set s")
  case True
  then obtain p q where s: "s = p @ CHR ''/'' # q" and q: "CHR ''/'' \<notin> set q"
    by (auto dest: split_list_last)
  have "substr s 0 (lastIndexOf s ''/'') = substr s 0 (int (length p))"
    using q by (simp add: s lastIndexOf_last)
  also have "\<dots> = take (length p) s"
    by (rule substr_prefix) (simp add: s)
  also have "\<dots> = p" by (simp add: s)
  finally show ?thesis using q by (simp add: s dirname_last)
next
  case False
  then show ?thesis
    by (simp add: lastIndexOf_absent substr_negative dirname_absent)
qed

lemma getWeightsManifestUrl_Val:
  "getWeightsManifestUrl (Val s) = Val (dirname s @ ''/'' @ DEFAULT_MANIFEST_NAME)"
  by (simp add: getWeightsManifestUrl_def Let_def path_eq_dirname)

lemma DEFAULT_MANIFEST_NAME_no_slash: "CHR ''/'' \<notin> set DEFAULT_MANIFEST_NAME"
  by (simp add: DEFAULT_MANIFEST_NAME_def)

section \<open>Routing of a string that is not a binary model\<close>

text \<open>
  With \<open>fromTFHub\<close> falsy, a string that does not end in \<open>.pb\<close> goes to the JSON
  loader.
\<close>

lemma loadGraphModel_string_route:
  "\<not> truthy_bool (fromTFHub (default_options options)) \<Longrightarrow> \<not> endsWith S ''.pb'' \<Longrightarrow>
   loadGraphModel backend (Val (Url S)) options t =
     invoke backend
       (loadFrozenModelJSON (Val (Url S)) (requestInit (default_options options))
          (onProgress (default_options options))) t"
  by (simp add: loadGraphModel_def Let_def)

section \<open>The claims of the specification\<close>

text \<open>
  Claim C1. When \<open>loadGraphModel\<close> is called with a locator that is \<open>null\<close> (the
  test of the source, \<open>== null\<close>, also holds of \<open>undefined\<close>), whatever the options,
  the call throws the error whose message names \<open>modelUrl\<close>, and the trace is the one it
  started with: nothing asynchronous was started and no loader was called.
\<close>

theorem loadGraphModel_null_throws:
  "is_null modelUrl \<Longrightarrow>
   loadGraphModel backend modelUrl options t =
     (Inl (Error (''modelUrl in loadGraphModel() cannot be null. Please provide a url '' @
                  ''or an IOHandler that loads the model'')), t)"
  by (simp add: loadGraphModel_def throw_def loadGraphModel_null_message_def)

theorem loadGraphModel_null_throws_witness:
  "is_null (Null :: unit locator nullable) \<and>
   loadGraphModel Promise_of Null Undefined [] =
     (Inl (Error ''modelUrl in loadGraphModel() cannot be null. Please provide a url or an IOHandler that loads the model''), []) \<and>
   loadGraphModel Promise_of Undefined (Val \<lparr>requestInit = Undefined, onProgress = Undefined, fromTFHub = Val True\<rparr>) [] =
     (Inl (Error ''modelUrl in loadGraphModel() cannot be null. Please provide a url or an IOHandler that loads the model''), [])"
  using loadGraphModel_null_throws [of "Null :: unit locator nullable" Promise_of Undefined "[]"]
    loadGraphModel_null_throws [of "Undefined :: unit locator nullable" Promise_of
      "Val \<lparr>requestInit = Undefined, onProgress = Undefined, fromTFHub = Val True\<rparr>" "[]"]
  by simp

text \<open>
  Claim C2. For every locator that is not null, a string of any suffix or a handler, and
  every options object whose \<open>fromTFHub\<close> is truthy, \<open>loadGraphModel\<close> returns the
  promise of the TF-Hub loader called with the locator, \<open>options.requestInit\<close> and
  \<open>options.onProgress\<close>, and that call is the only effect added to the trace.
\<close>

theorem loadGraphModel_fromTFHub:
  "truthy_bool (fromTFHub opts) \<Longrightarrow>
   loadGraphModel backend (Val url) (Val opts) t =
     (Inr (backend (loadTfHubModuleJSON (Val url) (requestInit opts) (onProgress opts))),
      t @ [Invoke (loadTfHubModuleJSON (Val url) (requestInit opts) (onProgress opts))])"
  by (simp add: loadGraphModel_def Let_def default_options_def invoke_def)

theorem loadGraphModel_fromTFHub_witness:
  "truthy_bool (fromTFHub \<lparr>requestInit = Val (), onProgress = Undefined, fromTFHub = Val True\<rparr>) \<and>
   loadGraphModel Promise_of (Val (Url ''https://tfhub.dev/x/model.pb''))
       (Val \<lparr>requestInit = Val (), onProgress = Undefined, fromTFHub = Val True\<rparr>) [] =
     (Inr (Promise_of (loadTfHubModuleJSON (Val (Url ''https://tfhub.dev/x/model.pb'')) (Val ()) Undefined)),
      [Invoke (loadTfHubModuleJSON (Val (Url ''https://tfhub.dev/x/model.pb'')) (Val ()) Undefined)])"
  using loadGraphModel_fromTFHub
    [of "\<lparr>requestInit = Val (), onProgress = Undefined, fromTFHub = Val True\<rparr>"
        Promise_of "Url ''https://tfhub.dev/x/model.pb''" "[]"]
  by simp

text \<open>
  Claim C3. For every string \<open>S\<close> ending in \<open>.pb\<close>, with \<open>fromTFHub\<close> falsy (the
  options may also be absent), \<open>loadGraphModel\<close> calls the binary loader, and only it,
  with \<open>S\<close> and the manifest URL \<open>dirname S\<close> followed by \<open>/weights_manifest.json\<close>.
\<close>

theorem loadGraphModel_pb:
  "endsWith S ''.pb'' \<Longrightarrow> \<not> truthy_bool (fromTFHub (default_options options)) \<Longrightarrow>
   loadGraphModel backend (Val (Url S)) options t =
     (Inr (backend (loadFrozenModelPB (Val S) (Val (dirname S @ ''/weights_manifest.json''))
                      (requestInit (default_options options))
                      (onProgress (default_options options)))),
      t @ [Invoke (loadFrozenModelPB (Val S) (Val (dirname S @ ''/weights_manifest.json''))
                     (requestInit (default_options options))
                     (onProgress (default_options options)))])"
  by (simp add: loadGraphModel_def Let_def invoke_def getWeightsManifestUrl_Val
      DEFAULT_MANIFEST_NAME_def)

theorem loadGraphModel_pb_witness:
  "endsWith ''https://host/dir/model.pb'' ''.pb'' \<and>
   \<not> truthy_bool (fromTFHub (default_options (Undefined :: (unit, unit) LoadOptions nullable))) \<and>
   loadGraphModel Promise_of (Val (Url ''https://host/dir/model.pb'')) Undefined [] =
     (Inr (Promise_of (loadFrozenModelPB (Val ''https://host/dir/model.pb'')
                         (Val ''https://host/dir/weights_manifest.json'') Undefined Undefined)),
      [Invoke (loadFrozenModelPB (Val ''https://host/dir/model.pb'')
                 (Val ''https://host/dir/weights_manifest.json'') Undefined Undefined)])"
proof -
  have e: "endsWith ''https://host/dir/model.pb'' ''.pb''"
    by (simp add: endsWith_def)
  have f: "\<not> truthy_bool (fromTFHub (default_options (Undefined :: (unit, unit) LoadOptions nullable)))"
    by (simp add: default_options_def empty_options_def)
  have d: "dirname ''https://host/dir/model.pb'' = ''https://host/dir''"
    by (simp add: dirname_def)
  show ?thesis
    using e f loadGraphModel_pb [OF e f, of Promise_of "[]"]
    by (simp add: d default_options_def empty_options_def)
qed

text \<open>
  Claim C4. For every string \<open>S\<close> ending neither in \<open>.json\<close> nor in \<open>.pb\<close>, with
  \<open>fromTFHub\<close> falsy, \<open>loadGraphModel\<close> calls the JSON loader, and only it, with
  \<open>S\<close> unchanged, \<open>options.requestInit\<close> and \<open>options.onProgress\<close>.
\<close>

theorem loadGraphModel_other_string:
  "\<not> endsWith S ''.json'' \<Longrightarrow> \<not> endsWith S ''.pb'' \<Longrightarrow>
   \<not> truthy_bool (fromTFHub (default_options options)) \<Longrightarrow>
   loadGraphModel backend (Val (Url S)) options t =
     (Inr (backend (loadFrozenModelJSON (Val (Url S))
                      (requestInit (default_options options))
                      (onProgress (default_options options)))),
      t @ [Invoke (loadFrozenModelJSON (Val (Url S))
                     (requestInit (default_options options))
                     (onProgress (default_options options)))])"
  by (simp add: loadGraphModel_string_route invoke_def)

theorem loadGraphModel_other_string_witness:
  "\<not> endsWith ''https://host/dir/model'' ''.json'' \<and>
   \<not> endsWith ''https://host/dir/model'' ''.pb'' \<and>
   \<not> truthy_bool (fromTFHub (default_options
        (Val \<lparr>requestInit = Val (), onProgress = Val (), fromTFHub = Val False\<rparr>))) \<and>
   loadGraphModel Promise_of (Val (Url ''https://host/dir/model''))
       (Val \<lparr>requestInit = Val (), onProgress = Val (), fromTFHub = Val False\<rparr>) [] =
     (Inr (Promise_of (loadFrozenModelJSON (Val (Url ''https://host/dir/model'')) (Val ()) (Val ()))),
      [Invoke (loadFrozenModelJSON (Val (Url ''https://host/dir/model'')) (Val ()) (Val ()))])"
proof -
  have j: "\<not> endsWith ''https://host/dir/model'' ''.json''"
    by (simp add: endsWith_def)
  have b: "\<not> endsWith ''https://host/dir/model'' ''.pb''"
    by (simp add: endsWith_def)
  have f: "\<not> truthy_bool (fromTFHub (default_options
        (Val \<lparr>requestInit = Val (), onProgress = Val (), fromTFHub = Val False\<rparr>)))"
    by (simp add: default_options_def)
  show ?thesis
    using j b f loadGraphModel_other_string [OF j b f, of Promise_of "[]"]
    by (simp add: default_options_def)
qed

text \<open>
  Claim C5. For every non-empty string ending in \<open>.json\<close>, the deprecated entry point
  \<open>loadFrozenModel\<close> warns and then calls the JSON loader with the locator, the request
  options and the progress callback, whatever the manifest argument is; the binary
  loader is not called, and the value returned is the loader's promise itself.
\<close>

theorem loadFrozenModel_json:
  "S \<noteq> [] \<Longrightarrow> endsWith S ''.json'' \<Longrightarrow>
   loadFrozenModel backend (Val S) weightsManifestUrl requestOption onProgress' t =
     (Inr (backend (loadFrozenModelJSON (Val (Url S)) requestOption onProgress')),
      t @ [DeprecationWarn loadFrozenModel_warning,
           Invoke (loadFrozenModelJSON (Val (Url S)) requestOption onProgress')])"
  by (simp add: loadFrozenModel_def Let_def invoke_def deprecationWarn_def)

theorem loadFrozenModel_json_witness:
  "''model.json'' \<noteq> [] \<and> endsWith ''model.json'' ''.json'' \<and>
   loadFrozenModel Promise_of (Val ''model.json'') (Val ''weights_manifest.json'') Undefined Undefined [] =
     (Inr (Promise_of (loadFrozenModelJSON (Val (Url ''model.json'')) Undefined Undefined)),
      [DeprecationWarn loadFrozenModel_warning,
       Invoke (loadFrozenModelJSON (Val (Url ''model.json'')) Undefined Undefined)]) \<and>
   loadFrozenModel Promise_of (Val ''model.json'') Undefined Undefined Undefined [] =
     (Inr (Promise_of (loadFrozenModelJSON (Val (Url ''model.json'')) Undefined Undefined)),
      [DeprecationWarn loadFrozenModel_warning,
       Invoke (loadFrozenModelJSON (Val (Url ''model.json'')) Undefined Undefined)])"
proof -
  have n: "''model.json'' \<noteq> []" by simp
  have e: "endsWith ''model.json'' ''.json''" by (simp add: endsWith_def)
  show ?thesis
    using n e
      loadFrozenModel_json [OF n e, of Promise_of "Val ''weights_manifest.json''" Undefined Undefined "[]"]
      loadFrozenModel_json [OF n e, of Promise_of Undefined Undefined Undefined "[]"]
    by simp
qed

text \<open>
  Claim C6. For every string locator (the empty one too) that does not end in \<open>.json\<close>,
  when the manifest argument is \<open>null\<close> or \<open>undefined\<close>, \<open>loadFrozenModel\<close> calls
  the binary loader with the locator, the URL that \<open>getWeightsManifestUrl\<close> makes from
  the locator, the request options and the progress callback.
\<close>

theorem loadFrozenModel_synthesizes:
  "\<not> endsWith S ''.json'' \<Longrightarrow> is_null weightsManifestUrl \<Longrightarrow>
   loadFrozenModel backend (Val S) weightsManifestUrl requestOption onProgress' t =
     (Inr (backend (loadFrozenModelPB (Val S) (getWeightsManifestUrl (Val S))
                      requestOption onProgress')),
      t @ [DeprecationWarn loadFrozenModel_warning,
           Invoke (loadFrozenModelPB (Val S) (getWeightsManifestUrl (Val S))
                     requestOption onProgress')])"
  by (simp add: loadFrozenModel_def Let_def invoke_def deprecationWarn_def)

theorem loadFrozenModel_synthesizes_witness:
  "\<not> endsWith ''model.pb'' ''.json'' \<and> is_null (Undefined :: string nullable) \<and>
   getWeightsManifestUrl (Val ''model.pb'') = Val ''/weights_manifest.json'' \<and>
   loadFrozenModel Promise_of (Val ''model.pb'') Undefined Undefined Undefined [] =
     (Inr (Promise_of (loadFrozenModelPB (Val ''model.pb'') (Val ''/weights_manifest.json'')
                         Undefined Undefined)),
      [DeprecationWarn loadFrozenModel_warning,
       Invoke (loadFrozenModelPB (Val ''model.pb'') (Val ''/weights_manifest.json'')
                 Undefined Undefined)])"
proof -
  have e: "\<not> endsWith ''model.pb'' ''.json''" by (simp add: endsWith_def)
  have u: "is_null (Undefined :: string nullable)" by simp
  have g: "getWeightsManifestUrl (Val ''model.pb'') = Val ''/weights_manifest.json''"
    by (simp add: getWeightsManifestUrl_Val dirname_def DEFAULT_MANIFEST_NAME_def)
  show ?thesis
    using e u g loadFrozenModel_synthesizes [OF e u, of Promise_of Undefined Undefined "[]"]
    by simp
qed

text \<open>
  Claim C7 as the specification states it says that a null base URL gives \<open>null\<close>.
  The variable that \<open>getWeightsManifestUrl\<close> returns is declared without a value and
  is assigned only under \<open>modelUrl != null\<close>, so on \<open>null\<close> the result is
  \<open>undefined\<close>, which is not the value \<open>null\<close>.
\<close>

theorem getWeightsManifestUrl_null_counterexample:
  "getWeightsManifestUrl Null = Undefined \<and> getWeightsManifestUrl Null \<noteq> Null"
  by (simp add: getWeightsManifestUrl_def)

text \<open>
  Claim C7, as the code has it. \<open>getWeightsManifestUrl\<close> returns a value and never an
  error. Of a base URL that is \<open>null\<close> or \<open>undefined\<close> it returns \<open>undefined\<close>, a
  value that the test \<open>== null\<close> accepts. Of a string it returns the part before the
  final \<open>/\<close>, then \<open>/\<close>, then the manifest filename: for \<open>p/q\<close> with no \<open>/\<close> in
  \<open>q\<close> that is \<open>p\<close> followed by \<open>/\<close> and the filename. Of a string with no \<open>/\<close> the
  directory part is empty and the result is \<open>/\<close> followed by the filename.
\<close>

theorem getWeightsManifestUrl_contract:
  "(is_null baseUrl \<longrightarrow>
      getWeightsManifestUrl baseUrl = Undefined \<and> is_null (getWeightsManifestUrl baseUrl)) \<and>
   getWeightsManifestUrl (Val s) = Val (dirname s @ ''/'' @ DEFAULT_MANIFEST_NAME) \<and>
   (CHR ''/'' \<notin> set q \<longrightarrow>
      getWeightsManifestUrl (Val (p @ ''/'' @ q)) = Val (p @ ''/'' @ DEFAULT_MANIFEST_NAME)) \<and>
   (CHR ''/'' \<notin> set s \<longrightarrow>
      dirname s = [] \<and> getWeightsManifestUrl (Val s) = Val (''/'' @ DEFAULT_MANIFEST_NAME))"
proof (intro conjI impI)
  assume "is_null baseUrl"
  then show u: "getWeightsManifestUrl baseUrl = Undefined"
    by (cases baseUrl) (simp_all add: getWeightsManifestUrl_def)
  show "is_null (getWeightsManifestUrl baseUrl)"
    by (simp add: u)
next
  show "getWeightsManifestUrl (Val s) = Val (dirname s @ ''/'' @ DEFAULT_MANIFEST_NAME)"
    by (rule getWeightsManifestUrl_Val)
next
  assume "CHR ''/'' \<notin> set q"
  then have "dirname (p @ CHR ''/'' # q) = p" by (rule dirname_last)
  then show "getWeightsManifestUrl (Val (p @ ''/'' @ q)) = Val (p @ ''/'' @ DEFAULT_MANIFEST_NAME)"
    by (simp add: getWeightsManifestUrl_Val)
next
  assume a: "CHR ''/'' \<notin> set s"
  then show d: "dirname s = []" by (rule dirname_absent)
  show "getWeightsManifestUrl (Val s) = Val (''/'' @ DEFAULT_MANIFEST_NAME)"
    by (simp add: getWeightsManifestUrl_Val d)
qed

theorem getWeightsManifestUrl_contract_witness:
  "is_null (Null :: string nullable) \<and>
   getWeightsManifestUrl Null = Undefined \<and>
   getWeightsManifestUrl (Val ''model.pb'') = Val ''/weights_manifest.json'' \<and>
   CHR ''/'' \<notin> set ''model.pb'' \<and>
   getWeightsManifestUrl (Val ''https://host/dir/model.pb'') =
     Val ''https://host/dir/weights_manifest.json''"
  using getWeightsManifestUrl_contract [of Null "''model.pb''" "''model.pb''" "''https://host/dir''"]
  by (simp add: DEFAULT_MANIFEST_NAME_def)

text \<open>
  Claim C8. \<open>getWeightsManifestUrl\<close> is a function of its argument alone (it reads no
  state and has no effect, so two calls on the same input agree), and applying it to its
  own output gives that output again.
\<close>

theorem getWeightsManifestUrl_idempotent:
  "getWeightsManifestUrl (getWeightsManifestUrl x) = getWeightsManifestUrl x"
proof (cases x)
  case (Val s)
  have "dirname (dirname s @ CHR ''/'' # DEFAULT_MANIFEST_NAME) = dirname s"
    by (rule dirname_last) (rule DEFAULT_MANIFEST_NAME_no_slash)
  then show ?thesis by (simp add: Val getWeightsManifestUrl_Val)
qed (simp_all add: getWeightsManifestUrl_def)

text \<open>
  Claim C9 as the specification states it says that a manifest URL is derived from the
  null base before the binary loader is called. With a null locator and an explicit
  manifest URL the loader receives the caller's URL, not the value derived from
  \<open>null\<close>.
\<close>

theorem loadFrozenModel_null_counterexample:
  "snd (loadFrozenModel Promise_of Null (Val ''https://host/dir/manifest.json'') Undefined Undefined []) =
     [DeprecationWarn loadFrozenModel_warning,
      Invoke (loadFrozenModelPB Null (Val ''https://host/dir/manifest.json'') Undefined Undefined)] \<and>
   snd (loadFrozenModel Promise_of Null (Val ''https://host/dir/manifest.json'') Undefined Undefined []) \<noteq>
     [DeprecationWarn loadFrozenModel_warning,
      Invoke (loadFrozenModelPB Null (getWeightsManifestUrl Null) Undefined Undefined)]"
  by (simp add: loadFrozenModel_def Let_def invoke_def deprecationWarn_def
      getWeightsManifestUrl_def)

text \<open>
  Claim C9, as the code has it. When \<open>loadFrozenModel\<close> is called with a locator that is
  \<open>null\<close> or \<open>undefined\<close>, nothing is thrown; after the warning the binary loader is
  called with that locator and with the manifest argument exactly as the caller gave
  it. The guard \<open>modelUrl != null\<close> skips \<open>getWeightsManifestUrl\<close>, so no manifest URL
  is derived from the absent base.
\<close>

theorem loadFrozenModel_null_forwards:
  "is_null modelUrl \<Longrightarrow>
   loadFrozenModel backend modelUrl weightsManifestUrl requestOption onProgress' t =
     (Inr (backend (loadFrozenModelPB modelUrl weightsManifestUrl requestOption onProgress')),
      t @ [DeprecationWarn loadFrozenModel_warning,
           Invoke (loadFrozenModelPB modelUrl weightsManifestUrl requestOption onProgress')])"
  by (cases modelUrl) (simp_all add: loadFrozenModel_def Let_def invoke_def deprecationWarn_def)

theorem loadFrozenModel_null_forwards_witness:
  "is_null (Null :: string nullable) \<and>
   loadFrozenModel Promise_of Null Undefined Undefined Undefined [] =
     (Inr (Promise_of (loadFrozenModelPB Null Undefined Undefined Undefined)),
      [DeprecationWarn loadFrozenModel_warning,
       Invoke (loadFrozenModelPB Null Undefined Undefined Undefined)]) \<and>
   loadFrozenModel Promise_of Null (Val ''https://host/dir/manifest.json'') Undefined Undefined [] =
     (Inr (Promise_of (loadFrozenModelPB Null (Val ''https://host/dir/manifest.json'')
                         Undefined Undefined)),
      [DeprecationWarn loadFrozenModel_warning,
       Invoke (loadFrozenModelPB Null (Val ''https://host/dir/manifest.json'')
                 Undefined Undefined)])"
  using loadFrozenModel_null_forwards [of "Null :: string nullable" Promise_of Undefined Undefined Undefined "[]"]
    loadFrozenModel_null_forwards [of "Null :: string nullable" Promise_of
      "Val ''https://host/dir/manifest.json''" Undefined Undefined "[]"]
  by simp

text \<open>
  Claim C10. The empty string is not null: with \<open>fromTFHub\<close> falsy,
  \<open>loadGraphModel\<close> does not throw on it and calls the JSON loader, and only it, with
  the empty string unchanged.
\<close>

theorem loadGraphModel_empty_string:
  "\<not> truthy_bool (fromTFHub (default_options options)) \<Longrightarrow>
   \<not> is_null (Val (Url []) :: 'h locator nullable) \<and>
   loadGraphModel backend (Val (Url [])) options t =
     (Inr (backend (loadFrozenModelJSON (Val (Url [] :: 'h locator))
                      (requestInit (default_options options))
                      (onProgress (default_options options)))),
      t @ [Invoke (loadFrozenModelJSON (Val (Url []))
                     (requestInit (default_options options))
                     (onProgress (default_options options)))])"
proof -
  assume f: "\<not> truthy_bool (fromTFHub (default_options options))"
  have "\<not> endsWith [] ''.pb''" by (simp add: endsWith_def)
  with f show ?thesis by (simp add: loadGraphModel_string_route invoke_def)
qed

theorem loadGraphModel_empty_string_witness:
  "\<not> truthy_bool (fromTFHub (default_options (Null :: (unit, unit) LoadOptions nullable))) \<and>
   loadGraphModel Promise_of (Val (Url [])) Null [] =
     (Inr (Promise_of (loadFrozenModelJSON (Val (Url [])) Undefined Undefined)),
      [Invoke (loadFrozenModelJSON (Val (Url [])) Undefined Undefined)])"
proof -
  have f: "\<not> truthy_bool (fromTFHub (default_options (Null :: (unit, unit) LoadOptions nullable)))"
    by (simp add: default_options_def empty_options_def)
  show ?thesis
    using f loadGraphModel_empty_string [OF f, of Promise_of "[]"]
    by (simp add: default_options_def empty_options_def)
qed

end
